theory Spec2Isabelle
  imports Main "HOL-Library.AList"
begin

section \<open>Python values\<close>

text \<open>
  The client in \<^verbatim>\<open>tap_tiktok/client.py\<close> works on dynamically typed data: the tap
  configuration, the request context, the parsed JSON body of a response and the
  records. They are modelled by one type of Python values: \<^verbatim>\<open>None\<close>, booleans,
  unbounded integers, strings, lists and dictionaries with string keys.  A dictionary is
  an association list in insertion order; a key is looked up with \<open>map_of\<close> and stored
  with \<open>AList.update\<close>, which replaces the value of an existing key in place and
  appends a new key at the end, as a Python \<^verbatim>\<open>dict\<close> does.  Floating-point numbers are
  not part of the model.  A character stands for a code point below 256.
\<close>

datatype pyval =
    PNone
  | PBool bool
  | PInt int
  | PStr string
  | PList "pyval list"
  | PDict "(string \<times> pyval) list"

type_synonym pydict = "(string \<times> pyval) list"

text \<open>The exceptions the client can raise, as values.\<close>

datatype error =
    RuntimeError string
  | TypeError
  | KeyError string
  | IndexError

text \<open>Truth value of an object, as tested by \<^verbatim>\<open>if x:\<close>, \<^verbatim>\<open>x or y\<close>, \<^verbatim>\<open>x and y\<close>.\<close>

fun truthy :: "pyval \<Rightarrow> bool" where
  "truthy PNone = False"
| "truthy (PBool b) = b"
| "truthy (PInt n) = (n \<noteq> 0)"
| "truthy (PStr s) = (s \<noteq> [])"
| "truthy (PList xs) = (xs \<noteq> [])"
| "truthy (PDict d) = (d \<noteq> [])"

definition py_or :: "pyval \<Rightarrow> pyval \<Rightarrow> pyval" where
  "py_or a b = (if truthy a then a else b)"

text \<open>\<^verbatim>\<open>d.get(k)\<close>: the value stored under \<open>k\<close>, or \<^verbatim>\<open>None\<close>.\<close>

definition dict_get :: "pydict \<Rightarrow> string \<Rightarrow> pyval" where
  "dict_get d k = (case map_of d k of None \<Rightarrow> PNone | Some v \<Rightarrow> v)"

text \<open>\<^verbatim>\<open>d[k]\<close>: raises \<^verbatim>\<open>KeyError\<close> when the key is missing.\<close>

definition dict_item :: "pydict \<Rightarrow> string \<Rightarrow> error + pyval" where
  "dict_item d k = (case map_of d k of None \<Rightarrow> Inl (KeyError k) | Some v \<Rightarrow> Inr v)"

definition isinstance_list :: "pyval \<Rightarrow> bool" where
  "isinstance_list v = (case v of PList xs \<Rightarrow> True | _ \<Rightarrow> False)"

definition list_items :: "pyval \<Rightarrow> pyval list" where
  "list_items v = (case v of PList xs \<Rightarrow> xs | _ \<Rightarrow> [])"

subsection \<open>Conversion to strings\<close>

definition digit_char :: "nat \<Rightarrow> char" where
  "digit_char d = ''0123456789abcdef'' ! d"

fun digits :: "nat \<Rightarrow> string" where
  "digits n = (if n < 10 then [digit_char n] else digits (n div 10) @ [digit_char (n mod 10)])"

declare digits.simps [simp del]

definition int_str :: "int \<Rightarrow> string" where
  "int_str i = (if i < 0 then CHR ''-'' # digits (nat (- i)) else digits (nat i))"

definition hex2 :: "nat \<Rightarrow> string" where
  "hex2 n = [digit_char (n div 16), digit_char (n mod 16)]"

definition join :: "string \<Rightarrow> string list \<Rightarrow> string" where
  "join sep xs = (case xs of [] \<Rightarrow> [] | y # ys \<Rightarrow> y @ concat (map (\<lambda>z. sep @ z) ys))"

text \<open>
  \<^verbatim>\<open>repr\<close> of a string: single quotes, unless the string has a single quote and no
  double quote; the quote and the backslash are escaped, tab, newline and carriage return
  are written \<^verbatim>\<open>\t\<close>, \<^verbatim>\<open>\n\<close>, \<^verbatim>\<open>\r\<close>, and the other non-printable code points
  (below 256: the control characters, \<^verbatim>\<open>0x7f\<close> to \<^verbatim>\<open>0xa0\<close> and \<^verbatim>\<open>0xad\<close>) as
  \<^verbatim>\<open>\xhh\<close>.
\<close>

definition repr_char :: "char \<Rightarrow> char \<Rightarrow> string" where
  "repr_char quote c = (let n = (of_char c :: nat) in
     if c = quote \<or> c = CHR 0x5C then [CHR 0x5C, c]
     else if n = 9 then [CHR 0x5C, CHR ''t'']
     else if n = 10 then [CHR 0x5C, CHR ''n'']
     else if n = 13 then [CHR 0x5C, CHR ''r'']
     else if n < 32 \<or> (127 \<le> n \<and> n \<le> 160) \<or> n = 173 then [CHR 0x5C, CHR ''x''] @ hex2 n
     else [c])"

definition py_repr_str :: "string \<Rightarrow> string" where
  "py_repr_str s =
     (let quote = (if CHR 0x27 \<in> set s \<and> CHR 0x22 \<notin> set s then CHR 0x22 else CHR 0x27)
      in [quote] @ concat (map (repr_char quote) s) @ [quote])"

fun py_repr :: "pyval \<Rightarrow> string"
  and py_repr_list :: "pyval list \<Rightarrow> string list"
  and py_repr_items :: "pydict \<Rightarrow> string list" where
  "py_repr PNone = ''None''"
| "py_repr (PBool b) = (if b then ''True'' else ''False'')"
| "py_repr (PInt n) = int_str n"
| "py_repr (PStr s) = py_repr_str s"
| "py_repr (PList xs) = ''['' @ join '', '' (py_repr_list xs) @ '']''"
| "py_repr (PDict d) = ''{'' @ join '', '' (py_repr_items d) @ ''}''"
| "py_repr_list [] = []"
| "py_repr_list (x # xs) = py_repr x # py_repr_list xs"
| "py_repr_items [] = []"
| "py_repr_items (kv # d) = (py_repr_str (fst kv) @ '': '' @ py_repr (snd kv)) # py_repr_items d"

text \<open>\<^verbatim>\<open>str(x)\<close>: a string is itself, any other value is its \<^verbatim>\<open>repr\<close>.\<close>

definition py_str :: "pyval \<Rightarrow> string" where
  "py_str v = (case v of PStr s \<Rightarrow> s | _ \<Rightarrow> py_repr v)"

text \<open>
  \<^verbatim>\<open>s.strip()\<close> removes leading and trailing whitespace.  The whitespace code points
  below 256 are \<^verbatim>\<open>0x09\<close> to \<^verbatim>\<open>0x0d\<close>, \<^verbatim>\<open>0x1c\<close> to \<^verbatim>\<open>0x20\<close>, \<^verbatim>\<open>0x85\<close> and
  \<^verbatim>\<open>0xa0\<close>.
\<close>

definition is_space :: "char \<Rightarrow> bool" where
  "is_space c = (let n = (of_char c :: nat) in
     (9 \<le> n \<and> n \<le> 13) \<or> (28 \<le> n \<and> n \<le> 32) \<or> n = 133 \<or> n = 160)"

definition strip :: "string \<Rightarrow> string" where
  "strip s = rev (dropWhile is_space (rev (dropWhile is_space s)))"

text \<open>A string is blank when it has no character other than whitespace.\<close>

definition blank :: "string \<Rightarrow> bool" where
  "blank s = list_all is_space s"

subsection \<open>Comparison and addition\<close>

text \<open>
  \<^verbatim>\<open>a == b\<close>: booleans are the integers 0 and 1, lists are equal elementwise,
  dictionaries when they have the same keys with equal values.  It never raises.
\<close>

fun py_eq :: "pyval \<Rightarrow> pyval \<Rightarrow> bool"
  and py_eq_list :: "pyval list \<Rightarrow> pyval list \<Rightarrow> bool"
  and py_eq_items :: "pydict \<Rightarrow> pydict \<Rightarrow> bool" where
  "py_eq PNone w = (w = PNone)"
| "py_eq (PBool b) w =
     (case w of PBool c \<Rightarrow> b = c | PInt n \<Rightarrow> (if b then 1 else 0) = n | _ \<Rightarrow> False)"
| "py_eq (PInt m) w =
     (case w of PBool c \<Rightarrow> m = (if c then 1 else 0) | PInt n \<Rightarrow> m = n | _ \<Rightarrow> False)"
| "py_eq (PStr s) w = (w = PStr s)"
| "py_eq (PList xs) w = (case w of PList ys \<Rightarrow> py_eq_list xs ys | _ \<Rightarrow> False)"
| "py_eq (PDict a) w =
     (case w of PDict b \<Rightarrow> length a = length b \<and> py_eq_items a b | _ \<Rightarrow> False)"
| "py_eq_list [] ys = (ys = [])"
| "py_eq_list (x # xs) ys =
     (case ys of [] \<Rightarrow> False | y # ys' \<Rightarrow> py_eq x y \<and> py_eq_list xs ys')"
| "py_eq_items [] b = True"
| "py_eq_items (kv # a) b =
     ((case map_of b (fst kv) of None \<Rightarrow> False | Some w \<Rightarrow> py_eq (snd kv) w)
      \<and> py_eq_items a b)"

fun str_lt :: "string \<Rightarrow> string \<Rightarrow> bool" where
  "str_lt [] ys = (ys \<noteq> [])"
| "str_lt (x # xs) [] = False"
| "str_lt (x # xs) (y # ys) =
     ((of_char x :: nat) < of_char y \<or> (x = y \<and> str_lt xs ys))"

text \<open>
  \<^verbatim>\<open>a < b\<close>: defined between numbers (booleans included), between strings (by code
  point) and between lists (the first pair of unequal elements decides, else the
  lengths); every other pair of operands raises \<^verbatim>\<open>TypeError\<close>, in particular every
  pair with \<^verbatim>\<open>None\<close> on either side.
\<close>

fun py_lt :: "pyval \<Rightarrow> pyval \<Rightarrow> error + bool"
  and py_lt_list :: "pyval list \<Rightarrow> pyval list \<Rightarrow> error + bool" where
  "py_lt (PBool b) w =
     (case w of PBool c \<Rightarrow> Inr (\<not> b \<and> c) | PInt n \<Rightarrow> Inr ((if b then 1 else 0) < n)
      | _ \<Rightarrow> Inl TypeError)"
| "py_lt (PInt m) w =
     (case w of PBool c \<Rightarrow> Inr (m < (if c then 1 else 0)) | PInt n \<Rightarrow> Inr (m < n)
      | _ \<Rightarrow> Inl TypeError)"
| "py_lt (PStr s) w = (case w of PStr t \<Rightarrow> Inr (str_lt s t) | _ \<Rightarrow> Inl TypeError)"
| "py_lt (PList xs) w = (case w of PList ys \<Rightarrow> py_lt_list xs ys | _ \<Rightarrow> Inl TypeError)"
| "py_lt PNone w = Inl TypeError"
| "py_lt (PDict a) w = Inl TypeError"
| "py_lt_list [] ys = Inr (ys \<noteq> [])"
| "py_lt_list (x # xs) ys =
     (case ys of [] \<Rightarrow> Inr False
      | y # ys' \<Rightarrow> if py_eq x y then py_lt_list xs ys' else py_lt x y)"

text \<open>\<^verbatim>\<open>a + b\<close> on numbers, strings and lists; \<^verbatim>\<open>TypeError\<close> otherwise.\<close>

fun py_add :: "pyval \<Rightarrow> pyval \<Rightarrow> error + pyval" where
  "py_add (PBool b) w =
     (case w of PBool c \<Rightarrow> Inr (PInt ((if b then 1 else 0) + (if c then 1 else 0)))
      | PInt n \<Rightarrow> Inr (PInt ((if b then 1 else 0) + n)) | _ \<Rightarrow> Inl TypeError)"
| "py_add (PInt m) w =
     (case w of PBool c \<Rightarrow> Inr (PInt (m + (if c then 1 else 0)))
      | PInt n \<Rightarrow> Inr (PInt (m + n)) | _ \<Rightarrow> Inl TypeError)"
| "py_add (PStr s) w = (case w of PStr t \<Rightarrow> Inr (PStr (s @ t)) | _ \<Rightarrow> Inl TypeError)"
| "py_add (PList xs) w = (case w of PList ys \<Rightarrow> Inr (PList (xs @ ys)) | _ \<Rightarrow> Inl TypeError)"
| "py_add PNone w = Inl TypeError"
| "py_add (PDict a) w = Inl TypeError"

section \<open>JSON paths\<close>

text \<open>
  \<^verbatim>\<open>extract_jsonpath\<close> of the SDK, for the paths the page information is read with:
  a path \<^verbatim>\<open>$.f1.f2...\<close> of field names.  A field matches in a dictionary that has the
  key; on any other value there is no match.  The result is the list of matches (at
  most one for such a path).
\<close>

fun split_dots :: "string \<Rightarrow> string \<Rightarrow> string list" where
  "split_dots acc [] = [rev acc]"
| "split_dots acc (c # cs) =
     (if c = CHR ''.'' then rev acc # split_dots [] cs else split_dots (c # acc) cs)"

definition path_fields :: "string \<Rightarrow> string list" where
  "path_fields p = tl (split_dots [] p)"

fun find_fields :: "string list \<Rightarrow> pyval \<Rightarrow> pyval list" where
  "find_fields [] v = [v]"
| "find_fields (f # fs) v =
     (case v of
        PDict d \<Rightarrow> (case map_of d f of None \<Rightarrow> [] | Some w \<Rightarrow> find_fields fs w)
      | _ \<Rightarrow> [])"

definition extract_jsonpath :: "string \<Rightarrow> pyval \<Rightarrow> pyval list" where
  "extract_jsonpath p json = find_fields (path_fields p) json"

section \<open>The base stream: pagination\<close>

text \<open>\<^verbatim>\<open>_get_page_info\<close>: the first match of the path, or \<^verbatim>\<open>None\<close>.\<close>

definition get_page_info :: "string \<Rightarrow> pyval \<Rightarrow> pyval" where
  "get_page_info json_path json =
     (case extract_jsonpath json_path json of [] \<Rightarrow> PNone | m # ms \<Rightarrow> m)"

text \<open>
  \<^verbatim>\<open>TikTokStream.get_next_page_token\<close>.  The argument \<open>body\<close> is \<^verbatim>\<open>response.json()\<close>;
  the result \<open>PNone\<close> is "no more pages".
\<close>

definition get_next_page_token :: "pyval \<Rightarrow> pyval \<Rightarrow> error + pyval" where
  "get_next_page_token body previous_token =
     (let current_page = py_or (get_page_info ''$.data.page_info.page'' body) (PInt 0);
          total_pages = py_or (get_page_info ''$.data.page_info.total_page'' body) (PInt 0)
      in case py_lt current_page total_pages of
           Inl e \<Rightarrow> Inl e
         | Inr lt \<Rightarrow> if lt then py_add current_page (PInt 1) else Inr PNone)"

section \<open>The report stream: pagination\<close>

text \<open>\<^verbatim>\<open>TikTokReportsStream.get_next_page_token\<close>: the same without the defaults.\<close>

definition reports_get_next_page_token :: "pyval \<Rightarrow> pyval \<Rightarrow> error + pyval" where
  "reports_get_next_page_token body previous_token =
     (let page_matches = extract_jsonpath ''$.data.page_info.page'' body;
          page_match = (case page_matches of [] \<Rightarrow> PNone | m # ms \<Rightarrow> m);
          current_page = page_match;
          total_pages_matches = extract_jsonpath ''$.data.page_info.total_page'' body;
          total_pages_match = (case total_pages_matches of [] \<Rightarrow> PNone | m # ms \<Rightarrow> m);
          total_pages = total_pages_match
      in case py_lt current_page total_pages of
           Inl e \<Rightarrow> Inl e
         | Inr lt \<Rightarrow> if lt then py_add current_page (PInt 1) else Inr PNone)"

section \<open>Tenant resolution and multi-tenant iteration\<close>

text \<open>
  \<^verbatim>\<open>TikTokStream._configured_advertiser_ids\<close>.  The argument is \<^verbatim>\<open>self.config\<close>.
\<close>

definition configured_advertiser_ids :: "pydict \<Rightarrow> error + string list" where
  "configured_advertiser_ids config =
     (let advertiser_ids = dict_get config ''advertiser_ids'' in
      if isinstance_list advertiser_ids \<and> truthy advertiser_ids
      then Inr (map py_str
                 (filter (\<lambda>x. x \<noteq> PNone \<and> strip (py_str x) \<noteq> []) (list_items advertiser_ids)))
      else
        (let advertiser_id = dict_get config ''advertiser_id'' in
         if advertiser_id \<noteq> PNone \<and> strip (py_str advertiser_id) \<noteq> []
         then Inr [py_str advertiser_id]
         else Inl (RuntimeError
           ''Missing advertiser_id(s). Set `advertiser_ids` (list) or `advertiser_id` (string).'')))"

text \<open>
  \<^verbatim>\<open>TikTokStream.get_records\<close> is a generator.  Its result is modelled by the list of
  records it yields and the exception that ends it, if one does.  The inherited
  \<^verbatim>\<open>RESTStream.get_records\<close> (the paginated fetch cycle for one context) belongs to the
  SDK and is a parameter, of the same shape: the records it yields and the exception it
  ends with, if any.  The loop over the advertisers stops at the first exception.
\<close>

type_synonym records = "pyval list \<times> error option"

fun run_advertisers :: "(pydict \<Rightarrow> records) \<Rightarrow> pydict \<Rightarrow> string list \<Rightarrow> records" where
  "run_advertisers super_get_records base_ctx [] = ([], None)"
| "run_advertisers super_get_records base_ctx (advertiser_id # rest) =
     (let local_ctx = AList.update ''advertiser_id'' (PStr advertiser_id) base_ctx;
          yielded = super_get_records local_ctx
      in case snd yielded of
           Some e \<Rightarrow> (fst yielded, Some e)
         | None \<Rightarrow>
             (let later = run_advertisers super_get_records base_ctx rest
              in (fst yielded @ fst later, snd later)))"

definition get_records :: "pydict \<Rightarrow> (pydict \<Rightarrow> records) \<Rightarrow> pydict option \<Rightarrow> records" where
  "get_records config super_get_records context =
     (let base_ctx = (case context of None \<Rightarrow> [] | Some c \<Rightarrow> c) in
      case configured_advertiser_ids config of
        Inl e \<Rightarrow> ([], Some e)
      | Inr ids \<Rightarrow> run_advertisers super_get_records base_ctx ids)"

text \<open>
  \<^verbatim>\<open>TikTokStream._resolve_advertiser_id\<close>.  The fallback indexes the configured list
  at 0, which raises \<^verbatim>\<open>IndexError\<close> on an empty list.
\<close>

definition first_configured_advertiser_id :: "pydict \<Rightarrow> error + string" where
  "first_configured_advertiser_id config =
     (case configured_advertiser_ids config of
        Inl e \<Rightarrow> Inl e
      | Inr ids \<Rightarrow> (case ids of [] \<Rightarrow> Inl IndexError | a # as \<Rightarrow> Inr a))"

definition resolve_advertiser_id :: "pydict \<Rightarrow> pydict option \<Rightarrow> error + string" where
  "resolve_advertiser_id config context =
     (case context of
        None \<Rightarrow> first_configured_advertiser_id config
      | Some c \<Rightarrow>
          if c \<noteq> [] \<and> truthy (dict_get c ''advertiser_id'')
          then (case dict_item c ''advertiser_id'' of
                  Inl e \<Rightarrow> Inl e
                | Inr v \<Rightarrow> Inr (py_str v))
          else first_configured_advertiser_id config)"

section \<open>Headers\<close>

text \<open>\<^verbatim>\<open>TikTokStream.http_headers\<close>.\<close>

definition http_headers :: "pydict \<Rightarrow> error + pydict" where
  "http_headers config =
     (let headers = [];
          headers = (if map_of config ''user_agent'' \<noteq> None
                     then AList.update ''User-Agent'' (dict_get config ''user_agent'') headers
                     else headers);
          headers = AList.update ''Content-Type'' (PStr ''application/json'') headers
      in case dict_item config ''access_token'' of
           Inl e \<Rightarrow> Inl e
         | Inr token \<Rightarrow> Inr (AList.update ''Access-Token'' (PStr (py_str token)) headers))"

section \<open>Request parameters\<close>

text \<open>
  \<^verbatim>\<open>json.dumps\<close> with its default settings: \<^verbatim>\<open>", "\<close> and \<^verbatim>\<open>": "\<close> as separators,
  and every character outside the printable ASCII range escaped.
\<close>

definition json_char :: "char \<Rightarrow> string" where
  "json_char c = (let n = (of_char c :: nat) in
     if n = 34 then [CHR 0x5C, CHR 0x22]
     else if n = 92 then [CHR 0x5C, CHR 0x5C]
     else if n = 10 then [CHR 0x5C, CHR ''n'']
     else if n = 13 then [CHR 0x5C, CHR ''r'']
     else if n = 9 then [CHR 0x5C, CHR ''t'']
     else if n = 8 then [CHR 0x5C, CHR ''b'']
     else if n = 12 then [CHR 0x5C, CHR ''f'']
     else if n < 32 \<or> 126 < n then [CHR 0x5C, CHR ''u'', CHR ''0'', CHR ''0''] @ hex2 n
     else [c])"

definition json_string :: "string \<Rightarrow> string" where
  "json_string s = [CHR 0x22] @ concat (map json_char s) @ [CHR 0x22]"

fun json_dumps :: "pyval \<Rightarrow> string"
  and json_dumps_list :: "pyval list \<Rightarrow> string list"
  and json_dumps_items :: "pydict \<Rightarrow> string list" where
  "json_dumps PNone = ''null''"
| "json_dumps (PBool b) = (if b then ''true'' else ''false'')"
| "json_dumps (PInt n) = int_str n"
| "json_dumps (PStr s) = json_string s"
| "json_dumps (PList xs) = ''['' @ join '', '' (json_dumps_list xs) @ '']''"
| "json_dumps (PDict d) = ''{'' @ join '', '' (json_dumps_items d) @ ''}''"
| "json_dumps_list [] = []"
| "json_dumps_list (x # xs) = json_dumps x # json_dumps_list xs"
| "json_dumps_items [] = []"
| "json_dumps_items (kv # d) =
     (json_string (fst kv) @ '': '' @ json_dumps (snd kv)) # json_dumps_items d"

text \<open>\<^verbatim>\<open>TikTokStream.get_url_params\<close>.\<close>

definition get_url_params :: "pydict \<Rightarrow> pydict option \<Rightarrow> pyval \<Rightarrow> error + pydict" where
  "get_url_params config context next_page_token =
     (case resolve_advertiser_id config context of
        Inl e \<Rightarrow> Inl e
      | Inr a \<Rightarrow>
          (let params = [(''advertiser_id'', PStr a)];
               params = (if truthy next_page_token
                         then AList.update ''page'' next_page_token params else params);
               params = AList.update ''filtering''
                 (PStr (json_dumps (PDict [(''primary_status'',
                    PStr (if truthy (dict_get config ''include_deleted'')
                          then ''STATUS_ALL'' else ''STATUS_NOT_DELETE''))])))
                 params;
               params = AList.update ''page_size'' (PInt 10) params
           in Inr params))"

section \<open>The report stream: post-processing\<close>

text \<open>
  \<^verbatim>\<open>{**a, **b}\<close> builds a new dictionary, stores the items of \<open>a\<close> and then the items
  of \<open>b\<close>.  An operand that is not a mapping raises \<^verbatim>\<open>TypeError\<close>.
\<close>

definition mapping_items :: "pyval \<Rightarrow> error + pydict" where
  "mapping_items v = (case v of PDict d \<Rightarrow> Inr d | _ \<Rightarrow> Inl TypeError)"

definition dict_update :: "pydict \<Rightarrow> pydict \<Rightarrow> pydict" where
  "dict_update d items = fold (\<lambda>kv. AList.update (fst kv) (snd kv)) items d"

text \<open>\<^verbatim>\<open>TikTokReportsStream.post_process\<close>.\<close>

definition post_process :: "pydict \<Rightarrow> pydict option \<Rightarrow> error + pydict" where
  "post_process row context =
     (case dict_item row ''dimensions'' of
        Inl e \<Rightarrow> Inl e
      | Inr dims \<Rightarrow>
     (case mapping_items dims of
        Inl e \<Rightarrow> Inl e
      | Inr d \<Rightarrow>
     (case dict_item row ''metrics'' of
        Inl e \<Rightarrow> Inl e
      | Inr mets \<Rightarrow>
     (case mapping_items mets of
        Inl e \<Rightarrow> Inl e
      | Inr m \<Rightarrow> Inr (dict_update (dict_update [] d) m)))))"

section \<open>Notions of the specification\<close>

text \<open>
  The page information of a body as the specification describes it: the field \<open>f\<close> of
  the object \<^verbatim>\<open>page_info\<close> of the object \<^verbatim>\<open>data\<close> of the body, if all of them are
  there.
\<close>

definition field_of :: "string \<Rightarrow> pyval option \<Rightarrow> pyval option" where
  "field_of f v = (case v of Some (PDict d) \<Rightarrow> map_of d f | _ \<Rightarrow> None)"

definition page_info_field :: "string \<Rightarrow> pyval \<Rightarrow> pyval option" where
  "page_info_field f body = field_of f (field_of ''page_info'' (field_of ''data'' (Some body)))"

text \<open>A value that is absent (or null) and otherwise falsy counts as 0.\<close>

definition or_zero :: "pyval option \<Rightarrow> pyval" where
  "or_zero v = (case v of None \<Rightarrow> PInt 0 | Some w \<Rightarrow> if truthy w then w else PInt 0)"

text \<open>
  The page information is numeric in the data model: a field is absent, null or an
  integer, and then its value is that integer, or 0.
\<close>

definition absent_or_int :: "pyval option \<Rightarrow> bool" where
  "absent_or_int v =
     (case v of None \<Rightarrow> True | Some PNone \<Rightarrow> True | Some (PInt n) \<Rightarrow> True | _ \<Rightarrow> False)"

definition value_or_zero :: "pyval option \<Rightarrow> int" where
  "value_or_zero v = (case v of Some (PInt n) \<Rightarrow> n | _ \<Rightarrow> 0)"

definition missing :: "pyval option \<Rightarrow> bool" where
  "missing v = (v = None \<or> v = Some PNone)"





section \<open>Auxiliary facts\<close>

lemma path_fields_page:
  "path_fields ''$.data.page_info.page'' = [''data'', ''page_info'', ''page'']"
  by (simp add: path_fields_def)

lemma path_fields_total_page:
  "path_fields ''$.data.page_info.total_page'' = [''data'', ''page_info'', ''total_page'']"
  by (simp add: path_fields_def)

lemma find_fields_page_info:
  "find_fields [''data'', ''page_info'', f] body =
     (case page_info_field f body of None \<Rightarrow> [] | Some v \<Rightarrow> [v])"
  by (simp add: page_info_field_def field_of_def split: pyval.splits option.splits)

lemma extract_page:
  "extract_jsonpath ''$.data.page_info.page'' body =
     (case page_info_field ''page'' body of None \<Rightarrow> [] | Some v \<Rightarrow> [v])"
  unfolding extract_jsonpath_def path_fields_page by (rule find_fields_page_info)

lemma extract_total_page:
  "extract_jsonpath ''$.data.page_info.total_page'' body =
     (case page_info_field ''total_page'' body of None \<Rightarrow> [] | Some v \<Rightarrow> [v])"
  unfolding extract_jsonpath_def path_fields_total_page by (rule find_fields_page_info)

lemma py_or_first_match:
  "py_or (case (case v of None \<Rightarrow> [] | Some w \<Rightarrow> [w]) of [] \<Rightarrow> PNone | m # ms \<Rightarrow> m) (PInt 0)
     = or_zero v"
  by (simp add: or_zero_def py_or_def split: option.splits)

lemma or_zero_int: "absent_or_int v \<Longrightarrow> or_zero v = PInt (value_or_zero v)"
  by (auto simp: absent_or_int_def value_or_zero_def or_zero_def
           split: option.splits pyval.splits)

lemma py_lt_None_right: "py_lt v PNone = Inl TypeError"
  by (cases v) simp_all

lemma strip_empty_iff: "strip s = [] \<longleftrightarrow> blank s"
proof -
  have "strip s = [] \<longleftrightarrow> (\<forall>c \<in> set (dropWhile is_space s). is_space c)"
    by (simp add: strip_def dropWhile_eq_Nil_conv)
  also have "\<dots> \<longleftrightarrow> dropWhile is_space s = []"
  proof
    assume all: "\<forall>c \<in> set (dropWhile is_space s). is_space c"
    show "dropWhile is_space s = []"
    proof (rule ccontr)
      assume ne: "dropWhile is_space s \<noteq> []"
      then have "\<not> is_space (hd (dropWhile is_space s))" by (rule hd_dropWhile)
      moreover from ne have "hd (dropWhile is_space s) \<in> set (dropWhile is_space s)" by simp
      ultimately show False using all by blast
    qed
  qed (auto dest: set_dropWhileD)
  also have "\<dots> \<longleftrightarrow> blank s"
    by (simp add: dropWhile_eq_Nil_conv blank_def list_all_iff)
  finally show ?thesis .
qed

lemma map_of_dict_get: "map_of d k = Some v \<Longrightarrow> dict_get d k = v"
  by (simp add: dict_get_def)

lemma py_str_samples:
  "py_str (PInt 12) = ''12''" "py_str (PStr s) = s" "py_str (PInt 7) = ''7''"
  "py_str (PInt 42) = ''42''"
  by (simp_all add: py_str_def int_str_def digits.simps digit_char_def)

lemma blank_samples:
  "blank '' ''" "blank ''''" "\<not> blank ''12''" "\<not> blank ''ab''" "\<not> blank ''7''"
  "\<not> blank ''A''" "\<not> blank ''B''"
  by (simp_all add: blank_def is_space_def)

lemma configured_AB:
  "configured_advertiser_ids [(''advertiser_ids'', PList [PStr ''A'', PStr ''B''])]
     = Inr [''A'', ''B'']"
  by (simp add: configured_advertiser_ids_def dict_get_def isinstance_list_def list_items_def
      py_str_def strip_def is_space_def)

lemma run_advertisers_concat:
  "\<forall>a \<in> set ids. snd (super_get_records (AList.update ''advertiser_id'' (PStr a) base)) = None \<Longrightarrow>
   run_advertisers super_get_records base ids =
     (concat (map (\<lambda>a. fst (super_get_records (AList.update ''advertiser_id'' (PStr a) base))) ids),
      None)"
  by (induction ids) (simp_all add: Let_def)

lemma json_status_all:
  \<open>json_dumps (PDict [(''primary_status'', PStr ''STATUS_ALL'')])
     = ''{"primary_status": "STATUS_ALL"}''\<close>
  by (simp add: json_string_def json_char_def join_def)

lemma json_status_not_delete:
  \<open>json_dumps (PDict [(''primary_status'', PStr ''STATUS_NOT_DELETE'')])
     = ''{"primary_status": "STATUS_NOT_DELETE"}''\<close>
  by (simp add: json_string_def json_char_def join_def)





lemma fold_update_append:
  "distinct (map fst items) \<Longrightarrow> fst ` set items \<inter> fst ` set acc = {} \<Longrightarrow>
     fold (\<lambda>kv. AList.update (fst kv) (snd kv)) items acc = acc @ items"
proof (induction items arbitrary: acc)
  case Nil
  then show ?case by simp
next
  case (Cons kv items)
  from Cons.prems have fresh: "fst kv \<notin> fst ` set acc" by auto
  then have upd: "AList.update (fst kv) (snd kv) acc = acc @ [kv]"
    by (induction acc) auto
  from Cons.prems have "fst ` set items \<inter> fst ` set (acc @ [kv]) = {}" by auto
  with Cons.IH [of "acc @ [kv]"] Cons.prems upd show ?case by simp
qed

lemma dict_update_copy: "distinct (map fst d) \<Longrightarrow> dict_update [] d = d"
  using fold_update_append [of d "[]"] by (simp add: dict_update_def)

lemma map_of_fold_update:
  "distinct (map fst items) \<Longrightarrow>
     map_of (fold (\<lambda>kv. AList.update (fst kv) (snd kv)) items acc) = map_of acc ++ map_of items"
proof (induction items arbitrary: acc)
  case Nil
  then show ?case by simp
next
  case (Cons kv items)
  from Cons.prems have d: "distinct (map fst items)"
    and nk: "map_of items (fst kv) = None"
    by (auto simp: map_of_eq_None_iff)
  have "map_of (fold (\<lambda>kv. AList.update (fst kv) (snd kv)) (kv # items) acc)
          = map_of (fold (\<lambda>kv. AList.update (fst kv) (snd kv)) items
                     (AList.update (fst kv) (snd kv) acc))"
    by simp
  also have "\<dots> = map_of (AList.update (fst kv) (snd kv) acc) ++ map_of items"
    by (rule Cons.IH [OF d])
  also have "\<dots> = map_of acc ++ map_of (kv # items)"
  proof (rule ext)
    fix k
    show "(map_of (AList.update (fst kv) (snd kv) acc) ++ map_of items) k
            = (map_of acc ++ map_of (kv # items)) k"
      using nk by (cases kv) (auto simp: update_conv' map_add_def split: option.splits)
  qed
  finally show ?case .
qed

section \<open>Pagination\<close>

text \<open>
  Claim C1.  The base stream reads the current page at \<^verbatim>\<open>$.data.page_info.page\<close> and the
  number of pages at \<^verbatim>\<open>$.data.page_info.total_page\<close>, an absent value counting as 0,
  and answers the current page plus one when the current page is below the number of
  pages, and no token otherwise.  The first part holds for every body, with the
  comparison and the addition of Python; the second part is the numeric page information
  of the data model, where neither of them can fail.
\<close>

theorem get_next_page_token_base:
  "get_next_page_token body previous_token =
     (case py_lt (or_zero (page_info_field ''page'' body))
                 (or_zero (page_info_field ''total_page'' body)) of
        Inl e \<Rightarrow> Inl e
      | Inr lt \<Rightarrow> if lt then py_add (or_zero (page_info_field ''page'' body)) (PInt 1)
                 else Inr PNone)
   \<and> (absent_or_int (page_info_field ''page'' body)
        \<and> absent_or_int (page_info_field ''total_page'' body) \<longrightarrow>
      get_next_page_token body previous_token =
        Inr (if value_or_zero (page_info_field ''page'' body)
                  < value_or_zero (page_info_field ''total_page'' body)
             then PInt (value_or_zero (page_info_field ''page'' body) + 1)
             else PNone))"
proof -
  have general: "get_next_page_token body previous_token =
     (case py_lt (or_zero (page_info_field ''page'' body))
                 (or_zero (page_info_field ''total_page'' body)) of
        Inl e \<Rightarrow> Inl e
      | Inr lt \<Rightarrow> if lt then py_add (or_zero (page_info_field ''page'' body)) (PInt 1)
                 else Inr PNone)"
    unfolding get_next_page_token_def get_page_info_def extract_page extract_total_page
      py_or_first_match Let_def ..
  show ?thesis
  proof (intro conjI impI)
    show "get_next_page_token body previous_token =
     (case py_lt (or_zero (page_info_field ''page'' body))
                 (or_zero (page_info_field ''total_page'' body)) of
        Inl e \<Rightarrow> Inl e
      | Inr lt \<Rightarrow> if lt then py_add (or_zero (page_info_field ''page'' body)) (PInt 1)
                 else Inr PNone)"
      by (rule general)
  next
    assume "absent_or_int (page_info_field ''page'' body)
        \<and> absent_or_int (page_info_field ''total_page'' body)"
    then show "get_next_page_token body previous_token =
        Inr (if value_or_zero (page_info_field ''page'' body)
                  < value_or_zero (page_info_field ''total_page'' body)
             then PInt (value_or_zero (page_info_field ''page'' body) + 1)
             else PNone)"
      by (simp add: general or_zero_int)
  qed
qed

text \<open>
  The examples of the claim, and a body without page information: page 1 of 3 gives the
  token 2, page 3 of 3 gives no token, and so does a body that has no \<^verbatim>\<open>page_info\<close>.
\<close>

theorem get_next_page_token_base_witness:
  "get_next_page_token
     (PDict [(''data'', PDict [(''page_info'',
        PDict [(''page'', PInt 1), (''total_page'', PInt 3)])])])
     PNone = Inr (PInt 2)
   \<and> get_next_page_token
     (PDict [(''data'', PDict [(''page_info'',
        PDict [(''page'', PInt 3), (''total_page'', PInt 3)])])])
     (PInt 2) = Inr PNone
   \<and> get_next_page_token (PDict [(''data'', PDict [(''list'', PList [])])]) PNone = Inr PNone"
  using get_next_page_token_base
          [of "PDict [(''data'', PDict [(''page_info'',
                 PDict [(''page'', PInt 1), (''total_page'', PInt 3)])])]" PNone]
        get_next_page_token_base
          [of "PDict [(''data'', PDict [(''page_info'',
                 PDict [(''page'', PInt 3), (''total_page'', PInt 3)])])]" "PInt 2"]
        get_next_page_token_base [of "PDict [(''data'', PDict [(''list'', PList [])])]" PNone]
  by (simp add: page_info_field_def field_of_def absent_or_int_def value_or_zero_def
      or_zero_def)

text \<open>
  Claim C5.  The report stream compares the raw extracted values: when the page or the
  number of pages is absent from the body (or null), the comparison has \<^verbatim>\<open>None\<close> as an
  operand and raises a \<^verbatim>\<open>TypeError\<close>; no token is returned and the pagination does not
  end normally.
\<close>

theorem reports_get_next_page_token_fault:
  assumes "missing (page_info_field ''page'' body)
           \<or> missing (page_info_field ''total_page'' body)"
  shows "reports_get_next_page_token body previous_token = Inl TypeError"
  using assms
  unfolding reports_get_next_page_token_def extract_page extract_total_page missing_def
  by (auto simp: py_lt_None_right split: option.splits)

theorem reports_get_next_page_token_fault_witness:
  "reports_get_next_page_token
     (PDict [(''data'', PDict [(''page_info'', PDict [(''page'', PInt 1)])])]) PNone
     = Inl TypeError
   \<and> reports_get_next_page_token (PDict [(''data'', PDict [(''list'', PList [])])]) PNone
     = Inl TypeError"
  using reports_get_next_page_token_fault
          [of "PDict [(''data'', PDict [(''page_info'', PDict [(''page'', PInt 1)])])]" PNone]
        reports_get_next_page_token_fault
          [of "PDict [(''data'', PDict [(''list'', PList [])])]" PNone]
  by (simp add: page_info_field_def field_of_def missing_def)

section \<open>Tenant resolution\<close>

text \<open>
  Claim C2.  When \<^verbatim>\<open>advertiser_ids\<close> is configured as a non-empty list, the resolver
  returns the string forms of its elements that are not null and not blank, in their
  order.  When it is absent, or not a non-empty list, and \<^verbatim>\<open>advertiser_id\<close> is configured
  with a value that is not null and not blank, the resolver returns the one-element list
  of its string form.
\<close>

theorem configured_advertiser_ids_resolved:
  "(map_of config ''advertiser_ids'' = Some (PList xs) \<and> xs \<noteq> [] \<longrightarrow>
      configured_advertiser_ids config =
        Inr (map py_str (filter (\<lambda>x. x \<noteq> PNone \<and> \<not> blank (py_str x)) xs)))
   \<and> ((\<forall>ys. map_of config ''advertiser_ids'' = Some (PList ys) \<longrightarrow> ys = [])
        \<and> map_of config ''advertiser_id'' = Some v \<and> v \<noteq> PNone \<and> \<not> blank (py_str v) \<longrightarrow>
      configured_advertiser_ids config = Inr [py_str v])"
proof (intro conjI impI)
  assume "map_of config ''advertiser_ids'' = Some (PList xs) \<and> xs \<noteq> []"
  then show "configured_advertiser_ids config =
        Inr (map py_str (filter (\<lambda>x. x \<noteq> PNone \<and> \<not> blank (py_str x)) xs))"
    by (simp add: configured_advertiser_ids_def Let_def map_of_dict_get isinstance_list_def
        list_items_def strip_empty_iff)
next
  assume h: "(\<forall>ys. map_of config ''advertiser_ids'' = Some (PList ys) \<longrightarrow> ys = [])
        \<and> map_of config ''advertiser_id'' = Some v \<and> v \<noteq> PNone \<and> \<not> blank (py_str v)"
  then have a: "(isinstance_list (dict_get config ''advertiser_ids'')
      \<and> truthy (dict_get config ''advertiser_ids'')) = False"
    by (auto simp: isinstance_list_def dict_get_def split: option.splits pyval.splits)
  from h have b: "dict_get config ''advertiser_id'' = v" "strip (py_str v) \<noteq> []"
    by (simp_all add: map_of_dict_get strip_empty_iff)
  from h b show "configured_advertiser_ids config = Inr [py_str v]"
    unfolding configured_advertiser_ids_def Let_def a by simp
qed

text \<open>
  A list with an integer, a null, a blank string and a string resolves to the integer
  and the string, and the scalar key is not looked at; with an empty list the scalar key
  decides.
\<close>

theorem configured_advertiser_ids_resolved_witness:
  "configured_advertiser_ids
     [(''advertiser_ids'', PList [PInt 12, PNone, PStr '' '', PStr ''ab'']),
      (''advertiser_id'', PStr ''zz'')] = Inr [''12'', ''ab'']
   \<and> configured_advertiser_ids [(''advertiser_ids'', PList []), (''advertiser_id'', PInt 7)]
       = Inr [''7'']"
  using configured_advertiser_ids_resolved
          [of "[(''advertiser_ids'', PList [PInt 12, PNone, PStr '' '', PStr ''ab'']),
                (''advertiser_id'', PStr ''zz'')]" "[PInt 12, PNone, PStr '' '', PStr ''ab'']" PNone]
        configured_advertiser_ids_resolved
          [of "[(''advertiser_ids'', PList []), (''advertiser_id'', PInt 7)]" "[]" "PInt 7"]
  by (simp add: py_str_samples blank_samples)

text \<open>
  Claim C3.  When neither \<^verbatim>\<open>advertiser_ids\<close> is configured as a non-empty list nor
  \<^verbatim>\<open>advertiser_id\<close> with a value that is not null and not blank, the resolver raises an
  error that carries a readable message (the \<^verbatim>\<open>RuntimeError\<close> of the source), and the
  iteration over the records ends with that error before it has yielded a record.
\<close>

theorem configured_advertiser_ids_missing:
  assumes "\<not> (\<exists>xs. map_of config ''advertiser_ids'' = Some (PList xs) \<and> xs \<noteq> [])"
      and "\<not> (\<exists>v. map_of config ''advertiser_id'' = Some v \<and> v \<noteq> PNone \<and> \<not> blank (py_str v))"
  shows "configured_advertiser_ids config =
           Inl (RuntimeError
             ''Missing advertiser_id(s). Set `advertiser_ids` (list) or `advertiser_id` (string).'')
         \<and> get_records config super_get_records context =
           ([], Some (RuntimeError
             ''Missing advertiser_id(s). Set `advertiser_ids` (list) or `advertiser_id` (string).''))"
proof -
  from assms(1) have a: "\<not> (isinstance_list (dict_get config ''advertiser_ids'')
      \<and> truthy (dict_get config ''advertiser_ids''))"
    by (auto simp: isinstance_list_def dict_get_def split: option.splits pyval.splits)
  from assms(2) have b: "\<not> (dict_get config ''advertiser_id'' \<noteq> PNone
      \<and> strip (py_str (dict_get config ''advertiser_id'')) \<noteq> [])"
    by (auto simp: dict_get_def strip_empty_iff split: option.splits)
  have c: "configured_advertiser_ids config =
           Inl (RuntimeError
             ''Missing advertiser_id(s). Set `advertiser_ids` (list) or `advertiser_id` (string).'')"
    using a b unfolding configured_advertiser_ids_def Let_def by (simp only: if_False)
  then show ?thesis by (simp add: get_records_def)
qed

theorem configured_advertiser_ids_missing_witness:
  "configured_advertiser_ids [(''access_token'', PStr ''t'')] =
           Inl (RuntimeError
             ''Missing advertiser_id(s). Set `advertiser_ids` (list) or `advertiser_id` (string).'')
   \<and> get_records [(''advertiser_ids'', PList []), (''advertiser_id'', PStr '' '')]
        (\<lambda>ctx. ([PDict ctx], None)) None =
           ([], Some (RuntimeError
             ''Missing advertiser_id(s). Set `advertiser_ids` (list) or `advertiser_id` (string).''))"
  using configured_advertiser_ids_missing [of "[(''access_token'', PStr ''t'')]"]
        configured_advertiser_ids_missing
          [of "[(''advertiser_ids'', PList []), (''advertiser_id'', PStr '' '')]"
              "\<lambda>ctx. ([PDict ctx], None)" None]
  by (simp add: py_str_samples blank_samples)

text \<open>
  Claim C4 says that no configuration resolves to an empty sequence of identifiers
  without an error.  The source tests the configured list for emptiness before it
  removes the null and blank elements, not after: a list whose elements are all blank
  resolves to the empty list, no error is raised, the scalar key is not consulted, and
  the iteration over the records ends normally without a record.
\<close>

theorem configured_advertiser_ids_blank_list:
  "configured_advertiser_ids [(''advertiser_ids'', PList [PStr ''''])] = Inr []
   \<and> configured_advertiser_ids
       [(''advertiser_ids'', PList [PStr '''']), (''advertiser_id'', PStr ''7'')] = Inr []
   \<and> get_records [(''advertiser_ids'', PList [PStr ''''])] super_get_records None = ([], None)
   \<and> first_configured_advertiser_id [(''advertiser_ids'', PList [PStr ''''])] = Inl IndexError"
  by (simp add: configured_advertiser_ids_def get_records_def dict_get_def isinstance_list_def
      list_items_def py_str_def strip_def first_configured_advertiser_id_def)

section \<open>Multi-tenant iteration\<close>

text \<open>
  Claim C6.  When the resolver returns the identifiers \<open>ids\<close> and the fetch cycle of
  each of them runs to its end without an error, the records yielded are the
  concatenation, in the order of \<open>ids\<close>, of the records of the fetch cycle of each
  identifier, run on the context extended with that identifier; nothing is removed.
\<close>

theorem get_records_concat:
  assumes "configured_advertiser_ids config = Inr ids"
      and "base = (case context of None \<Rightarrow> [] | Some c \<Rightarrow> c)"
      and "\<forall>a \<in> set ids.
             snd (super_get_records (AList.update ''advertiser_id'' (PStr a) base)) = None"
  shows "get_records config super_get_records context =
           (concat (map (\<lambda>a. fst (super_get_records
                                     (AList.update ''advertiser_id'' (PStr a) base))) ids),
            None)"
  using assms(1,2) run_advertisers_concat [OF assms(3)]
  by (simp add: get_records_def)

text \<open>
  Two tenants, each with two pages of one record: the four records come out in the order
  A page 1, A page 2, B page 1, B page 2.
\<close>

theorem get_records_concat_witness:
  "get_records [(''advertiser_ids'', PList [PStr ''A'', PStr ''B''])]
     (\<lambda>ctx. (concat [[PDict [(''tenant'', dict_get ctx ''advertiser_id''), (''page'', PInt 1)]],
                      [PDict [(''tenant'', dict_get ctx ''advertiser_id''), (''page'', PInt 2)]]],
              None))
     None
   = ([PDict [(''tenant'', PStr ''A''), (''page'', PInt 1)],
       PDict [(''tenant'', PStr ''A''), (''page'', PInt 2)],
       PDict [(''tenant'', PStr ''B''), (''page'', PInt 1)],
       PDict [(''tenant'', PStr ''B''), (''page'', PInt 2)]], None)"
  using get_records_concat
          [of "[(''advertiser_ids'', PList [PStr ''A'', PStr ''B''])]" "[''A'', ''B'']" "[]" None
              "\<lambda>ctx. (concat [[PDict [(''tenant'', dict_get ctx ''advertiser_id''), (''page'', PInt 1)]],
                      [PDict [(''tenant'', dict_get ctx ''advertiser_id''), (''page'', PInt 2)]]],
              None)"]
  by (simp add: configured_AB dict_get_def)

section \<open>Request parameters and headers\<close>



text \<open>
  Claim C8.  In every mapping of parameters returned, \<^verbatim>\<open>filtering\<close> is the JSON text of
  the object whose \<^verbatim>\<open>primary_status\<close> is \<^verbatim>\<open>STATUS_ALL\<close> when the configured
  \<^verbatim>\<open>include_deleted\<close> is truthy, and \<^verbatim>\<open>STATUS_NOT_DELETE\<close> when it is not, which includes
  a configuration without the flag.
\<close>

theorem get_url_params_filtering:
  assumes \<open>get_url_params config context token = Inr params\<close>
  shows \<open>map_of params ''filtering'' =
           Some (PStr (if truthy (dict_get config ''include_deleted'')
                       then ''{"primary_status": "STATUS_ALL"}''
                       else ''{"primary_status": "STATUS_NOT_DELETE"}''))
         \<and> json_dumps (PDict [(''primary_status'', PStr ''STATUS_ALL'')])
             = ''{"primary_status": "STATUS_ALL"}''
         \<and> json_dumps (PDict [(''primary_status'', PStr ''STATUS_NOT_DELETE'')])
             = ''{"primary_status": "STATUS_NOT_DELETE"}''\<close>
proof -
  have \<open>map_of params ''filtering'' =
           Some (PStr (json_dumps (PDict [(''primary_status'',
              PStr (if truthy (dict_get config ''include_deleted'')
                    then ''STATUS_ALL'' else ''STATUS_NOT_DELETE''))])))\<close>
    using assms
    by (auto simp: get_url_params_def Let_def update_conv' split: sum.splits)
  then show ?thesis
    using json_status_all json_status_not_delete by (simp split: if_splits)
qed

theorem get_url_params_filtering_witness:
  \<open>get_url_params [(''advertiser_id'', PStr ''A''), (''include_deleted'', PBool True)] None PNone
     = Inr [(''advertiser_id'', PStr ''A''),
            (''filtering'', PStr ''{"primary_status": "STATUS_ALL"}''),
            (''page_size'', PInt 10)]
   \<and> get_url_params [(''advertiser_id'', PStr ''A'')] None PNone
     = Inr [(''advertiser_id'', PStr ''A''),
            (''filtering'', PStr ''{"primary_status": "STATUS_NOT_DELETE"}''),
            (''page_size'', PInt 10)]\<close>
proof -
  have ids:
    "configured_advertiser_ids [(''advertiser_id'', PStr ''A''), (''include_deleted'', PBool True)]
       = Inr [''A'']"
    "configured_advertiser_ids [(''advertiser_id'', PStr ''A'')] = Inr [''A'']"
    by (simp_all add: configured_advertiser_ids_def isinstance_list_def strip_def is_space_def
        dict_get_def py_str_def)
  have a: "get_url_params [(''advertiser_id'', PStr ''A''), (''include_deleted'', PBool True)]
             None PNone
           = Inr [(''advertiser_id'', PStr ''A''),
                  (''filtering'', PStr (json_dumps
                     (PDict [(''primary_status'', PStr ''STATUS_ALL'')]))),
                  (''page_size'', PInt 10)]"
    by (simp add: get_url_params_def resolve_advertiser_id_def
        first_configured_advertiser_id_def ids dict_get_def del: json_dumps.simps)
  have b: "get_url_params [(''advertiser_id'', PStr ''A'')] None PNone
           = Inr [(''advertiser_id'', PStr ''A''),
                  (''filtering'', PStr (json_dumps
                     (PDict [(''primary_status'', PStr ''STATUS_NOT_DELETE'')]))),
                  (''page_size'', PInt 10)]"
    by (simp add: get_url_params_def resolve_advertiser_id_def
        first_configured_advertiser_id_def ids dict_get_def del: json_dumps.simps)
  from get_url_params_filtering [OF a]
  have j1: \<open>json_dumps (PDict [(''primary_status'', PStr ''STATUS_ALL'')])
             = ''{"primary_status": "STATUS_ALL"}''\<close>
    by blast
  from get_url_params_filtering [OF b]
  have j2: \<open>json_dumps (PDict [(''primary_status'', PStr ''STATUS_NOT_DELETE'')])
             = ''{"primary_status": "STATUS_NOT_DELETE"}''\<close>
    by blast
  show ?thesis unfolding a b j1 j2 by (intro conjI refl)
qed

text \<open>
  Claim C9.  The headers are computed for every configuration that has the required
  \<^verbatim>\<open>access_token\<close>.  Whenever they are computed, \<^verbatim>\<open>Content-Type\<close> is
  \<^verbatim>\<open>application/json\<close>, \<^verbatim>\<open>Access-Token\<close> is the string form of the configured token,
  and \<^verbatim>\<open>User-Agent\<close> is the configured \<^verbatim>\<open>user_agent\<close> when that key is configured and is
  omitted when it is not.
\<close>

theorem http_headers_contents:
  "(map_of config ''access_token'' \<noteq> None \<longrightarrow> (\<exists>hs. http_headers config = Inr hs))
   \<and> (http_headers config = Inr headers \<longrightarrow>
        map_of headers ''Content-Type'' = Some (PStr ''application/json'')
        \<and> map_of headers ''Access-Token'' = Some (PStr (py_str (dict_get config ''access_token'')))
        \<and> map_of headers ''User-Agent'' = map_of config ''user_agent'')"
  by (auto simp: http_headers_def Let_def dict_item_def dict_get_def update_conv'
           split: option.splits)

theorem http_headers_contents_witness:
  "http_headers [(''access_token'', PStr ''tok''), (''user_agent'', PStr ''tap-tiktok'')]
     = Inr [(''User-Agent'', PStr ''tap-tiktok''), (''Content-Type'', PStr ''application/json''),
            (''Access-Token'', PStr ''tok'')]
   \<and> http_headers [(''access_token'', PInt 42)]
     = Inr [(''Content-Type'', PStr ''application/json''), (''Access-Token'', PStr ''42'')]"
  using http_headers_contents
          [of "[(''access_token'', PStr ''tok''), (''user_agent'', PStr ''tap-tiktok'')]"
              "[(''User-Agent'', PStr ''tap-tiktok''), (''Content-Type'', PStr ''application/json''),
                (''Access-Token'', PStr ''tok'')]"]
        http_headers_contents
          [of "[(''access_token'', PInt 42)]"
              "[(''Content-Type'', PStr ''application/json''), (''Access-Token'', PStr ''42'')]"]
  by (simp add: http_headers_def dict_item_def dict_get_def py_str_samples)

section \<open>Report post-processing\<close>

text \<open>
  Claim C10.  For a row whose \<^verbatim>\<open>dimensions\<close> and \<^verbatim>\<open>metrics\<close> are mappings, the report
  stream returns one flat mapping, the dimensions updated with the metrics: a key has the
  value it has in the metrics if it is there, and the value it has in the dimensions
  otherwise.
\<close>

theorem post_process_merge:
  assumes "map_of row ''dimensions'' = Some (PDict d)"
      and "map_of row ''metrics'' = Some (PDict m)"
      and "distinct (map fst d)" and "distinct (map fst m)"
  shows "post_process row context = Inr (dict_update d m)
         \<and> (\<forall>k. map_of (dict_update d m) k =
               (case map_of m k of Some v \<Rightarrow> Some v | None \<Rightarrow> map_of d k))"
proof
  show "post_process row context = Inr (dict_update d m)"
    using assms(1,2) dict_update_copy [OF assms(3)]
    by (simp add: post_process_def dict_item_def mapping_items_def)
  show "\<forall>k. map_of (dict_update d m) k =
               (case map_of m k of Some v \<Rightarrow> Some v | None \<Rightarrow> map_of d k)"
    using map_of_fold_update [OF assms(4), of d]
    by (simp add: dict_update_def map_add_def)
qed

text \<open>The example of the claim, and a row where the two mappings share a key.\<close>

theorem post_process_merge_witness:
  "post_process [(''dimensions'', PDict [(''date'', PStr ''2024-01-01'')]),
                 (''metrics'', PDict [(''clicks'', PInt 5)])] None
     = Inr [(''date'', PStr ''2024-01-01''), (''clicks'', PInt 5)]
   \<and> post_process [(''dimensions'', PDict [(''date'', PStr ''2024-01-01''), (''spend'', PInt 1)]),
                 (''metrics'', PDict [(''clicks'', PInt 5), (''spend'', PInt 2)])] None
     = Inr [(''date'', PStr ''2024-01-01''), (''spend'', PInt 2), (''clicks'', PInt 5)]"
  using post_process_merge
          [of "[(''dimensions'', PDict [(''date'', PStr ''2024-01-01'')]),
                (''metrics'', PDict [(''clicks'', PInt 5)])]"
              "[(''date'', PStr ''2024-01-01'')]" "[(''clicks'', PInt 5)]" None]
        post_process_merge
          [of "[(''dimensions'', PDict [(''date'', PStr ''2024-01-01''), (''spend'', PInt 1)]),
                (''metrics'', PDict [(''clicks'', PInt 5), (''spend'', PInt 2)])]"
              "[(''date'', PStr ''2024-01-01''), (''spend'', PInt 1)]"
              "[(''clicks'', PInt 5), (''spend'', PInt 2)]" None]
  by (simp add: dict_update_def)

end
